theory Spec2Isabelle
  imports Main
begin

section \<open>The denyenv admission webhook (src/index.js)\<close>

text \<open>
  The handler \<open>denyenv (req, res)\<close> reads the parsed JSON document \<open>req.body\<close>, walks
  \<open>request.object.spec.containers\<close>, and sends an admission review whose \<open>allowed\<close> flag
  is false as soon as some container owns an \<open>env\<close> property. The model below follows the
  JavaScript statement by statement: values are JSON trees, a property read on
  \<open>undefined\<close> or \<open>null\<close> raises \<open>TypeError\<close>, the console is explicit state, and the
  object handed to \<open>JSON.stringify\<close> is kept as a tree with its property order.
\<close>

subsection \<open>JavaScript values and the operations the handler uses\<close>

text \<open>
  A value of a parsed JSON document, plus \<open>undefined\<close> (the result of reading a property
  that is not there). Numbers are integers: the only number the handler writes is 402.
  An object is the list of its own properties in insertion order; a parsed document has
  each property name once, and a lookup takes the first binding.
\<close>

datatype js =
    JUndefined
  | JNull
  | JBool bool
  | JNum int
  | JStr string
  | JArr "js list"
  | JObj "(string \<times> js) list"

text \<open>The only exception the handler can raise: every failing step is a \<open>TypeError\<close>.\<close>

datatype error = TypeError

text \<open>
  Property read \<open>v.k\<close> (\<open>v[k]\<close>). Reading from \<open>undefined\<close> or \<open>null\<close> throws; an object
  gives its own property or \<open>undefined\<close>; primitives and arrays give \<open>undefined\<close> for the
  keys the handler reads (\<open>request\<close>, \<open>object\<close>, \<open>metadata\<close>, \<open>name\<close>, \<open>spec\<close>,
  \<open>containers\<close>), none of which a built-in prototype defines.
\<close>

fun getprop :: "js \<Rightarrow> string \<Rightarrow> error + js" where
  "getprop JUndefined k = Inl TypeError"
| "getprop JNull k = Inl TypeError"
| "getprop (JObj ps) k = (case map_of ps k of None \<Rightarrow> Inr JUndefined | Some v \<Rightarrow> Inr v)"
| "getprop v k = Inr JUndefined"

text \<open>
  The operator \<open>k in v\<close>. Its right operand must be an object, otherwise it throws. An
  array is an object whose keys are indices and \<open>length\<close>, so \<open>"env" in [..]\<close> is false.
\<close>

fun in_op :: "string \<Rightarrow> js \<Rightarrow> error + bool" where
  "in_op k (JObj ps) = Inr (map_of ps k \<noteq> None)"
| "in_op k (JArr xs) = Inr False"
| "in_op k v = Inl TypeError"

text \<open>
  What \<open>for (var x of v)\<close> iterates over: the elements of an array, the characters of a
  string; anything else in a JSON document is not iterable.
\<close>

fun iterate :: "js \<Rightarrow> error + js list" where
  "iterate (JArr xs) = Inr xs"
| "iterate (JStr s) = Inr (map (\<lambda>c. JStr [c]) s)"
| "iterate v = Inl TypeError"

text \<open>
  Decimal rendering of an integer, as \<open>String(n)\<close> gives it for the integers that
  JavaScript prints without an exponent (magnitude below \<open>10\<^sup>2\<^sup>1\<close>). It is reached only
  when a name in the document is a number.
\<close>

fun digits :: "nat \<Rightarrow> string" where
  "digits n =
     (if n < 10 then [char_of (48 + n)]
      else digits (n div 10) @ [char_of (48 + n mod 10)])"

definition int_to_string :: "int \<Rightarrow> string" where
  "int_to_string i = (if i < 0 then CHR ''-'' # digits (nat (- i)) else digits (nat i))"

text \<open>
  \<open>ToString\<close>, which a template literal \<open>`${v}`\<close> applies to \<open>v\<close>. An array is joined with
  commas, \<open>undefined\<close> and \<open>null\<close> elements rendering as the empty string. A plain object
  renders as \<open>[object Object]\<close> through the inherited \<open>toString\<close>; when the document gives
  the object an own \<open>toString\<close> property the inherited method is shadowed by a value that
  is not callable, \<open>valueOf\<close> (own or inherited) yields no primitive either, and the
  conversion throws.
\<close>

fun toString :: "js \<Rightarrow> error + string"
  and join :: "js list \<Rightarrow> error + string" where
  "toString JUndefined = Inr ''undefined''"
| "toString JNull = Inr ''null''"
| "toString (JBool b) = Inr (if b then ''true'' else ''false'')"
| "toString (JNum i) = Inr (int_to_string i)"
| "toString (JStr s) = Inr s"
| "toString (JArr xs) = join xs"
| "toString (JObj ps) =
     (if map_of ps ''toString'' \<noteq> None then Inl TypeError else Inr ''[object Object]'')"
| "join [] = Inr []"
| "join (x # xs) =
     (case (if x = JUndefined \<or> x = JNull then Inr [] else toString x) of
        Inl e \<Rightarrow> Inl e
      | Inr s \<Rightarrow>
          (if xs = [] then Inr s
           else (case join xs of Inl e \<Rightarrow> Inl e | Inr t \<Rightarrow> Inr (s @ '','' @ t))))"

declare digits.simps [simp del]

text \<open>
  Assignment \<open>o.k = v\<close> on the property list of an object: an existing property keeps its
  place and takes the new value, a new one is appended.
\<close>

fun assign :: "(string \<times> js) list \<Rightarrow> string \<Rightarrow> js \<Rightarrow> (string \<times> js) list" where
  "assign [] k v = [(k, v)]"
| "assign (p # ps) k v = (if fst p = k then (k, v) # ps else p # assign ps k v)"

subsection \<open>The handler\<close>

text \<open>
  What the three calls on \<open>res\<close> leave behind: the header set by \<open>res.setHeader\<close>, the
  document given to \<open>JSON.stringify\<close> and sent by \<open>res.send\<close> (serialisation itself is
  the transport's and is not modelled), and the code of \<open>res.status(200)\<close>.
\<close>

record http_reply =
  headers :: "(string \<times> string) list"
  sent :: js
  statusCode :: nat

text \<open>The object literal of lines 20 to 25, for the rendered container name \<open>n\<close>.\<close>

definition failure_status :: "string \<Rightarrow> js" where
  "failure_status n =
     JObj [(''status'', JStr ''Failure''),
           (''message'', JStr (n @ '' is using env vars'')),
           (''reason'', JStr (n @ '' is using env vars'')),
           (''code'', JNum 402)]"

text \<open>
  The loop of lines 16 to 29 over the remaining containers. Its variables are the console
  (lines written so far), the properties of \<open>admissionResponse\<close> and the flag \<open>found\<close>.
  An exception leaves the loop with the console as it was when it was raised.
\<close>

fun containers_loop ::
  "js list \<Rightarrow> string list \<Rightarrow> (string \<times> js) list \<Rightarrow> bool
     \<Rightarrow> string list \<times> (error + (string \<times> js) list \<times> bool)" where
  "containers_loop [] console admissionResponse found =
     (console, Inr (admissionResponse, found))"
| "containers_loop (container # rest) console admissionResponse found =
     (case in_op ''env'' container of
        Inl e \<Rightarrow> (console, Inl e)
      | Inr False \<Rightarrow> containers_loop rest console admissionResponse found
      | Inr True \<Rightarrow>
          (case getprop container ''name'' of
             Inl e \<Rightarrow> (console, Inl e)
           | Inr nm \<Rightarrow>
               (case toString nm of
                  Inl e \<Rightarrow> (console, Inl e)
                | Inr n \<Rightarrow>
                    containers_loop rest
                      (console @ [n @ '' is using env vars''])
                      (assign admissionResponse ''status'' (failure_status n))
                      True)))"

text \<open>
  Lines 31 to 41: \<open>allowed\<close> becomes true when nothing was found, the response is wrapped
  in the review and sent with status 200.
\<close>

definition respond :: "(string \<times> js) list \<Rightarrow> bool \<Rightarrow> http_reply" where
  "respond admissionResponse found =
     \<lparr>headers = [(''Content-Type'', ''application/json'')],
      sent = JObj [(''response'',
                JObj (if \<not> found then assign admissionResponse ''allowed'' (JBool True)
                      else admissionResponse))],
      statusCode = 200\<rparr>"

text \<open>
  The handler, from the body of the request and the console before the call to the
  console after it and either the exception that escaped or the reply that was sent.
\<close>

definition denyenv :: "js \<Rightarrow> string list \<Rightarrow> string list \<times> (error + http_reply)" where
  "denyenv admissionRequest console =
     (case getprop admissionRequest ''request'' of
        Inl e \<Rightarrow> (console, Inl e)
      | Inr request \<Rightarrow>
     (case getprop request ''object'' of
        Inl e \<Rightarrow> (console, Inl e)
      | Inr object \<Rightarrow>
     (case getprop object ''metadata'' of
        Inl e \<Rightarrow> (console, Inl e)
      | Inr metadata \<Rightarrow>
     (case getprop metadata ''name'' of
        Inl e \<Rightarrow> (console, Inl e)
      | Inr nm \<Rightarrow>
     (case toString nm of
        Inl e \<Rightarrow> (console, Inl e)
      | Inr n \<Rightarrow>
     (let console1 = console @ [''validating the '' @ n @ '' pod''] in
     (case getprop object ''spec'' of
        Inl e \<Rightarrow> (console1, Inl e)
      | Inr spec \<Rightarrow>
     (case getprop spec ''containers'' of
        Inl e \<Rightarrow> (console1, Inl e)
      | Inr containers \<Rightarrow>
     (case iterate containers of
        Inl e \<Rightarrow> (console1, Inl e)
      | Inr cs \<Rightarrow>
     (case containers_loop cs console1 [(''allowed'', JBool False)] False of
        (console2, Inl e) \<Rightarrow> (console2, Inl e)
      | (console2, Inr (admissionResponse, found)) \<Rightarrow>
          (console2, Inr (respond admissionResponse found))))))))))))"

subsection \<open>Vocabulary of the statements\<close>

text \<open>
  Following a path of property names, as \<open>a.b.c\<close> does, with \<open>undefined\<close> where the path
  cannot be followed to its end.
\<close>

fun lookup_path :: "js \<Rightarrow> string list \<Rightarrow> js" where
  "lookup_path v [] = v"
| "lookup_path v (k # ks) =
     (case getprop v k of Inl e \<Rightarrow> JUndefined | Inr w \<Rightarrow> lookup_path w ks)"

fun is_string :: "js \<Rightarrow> bool" where
  "is_string (JStr s) = True"
| "is_string v = False"

text \<open>A container of the wire protocol: an object whose \<open>name\<close> is a string.\<close>

definition wf_container :: "js \<Rightarrow> bool" where
  "wf_container c = is_string (lookup_path c [''name''])"

text \<open>The list under \<open>request.object.spec.containers\<close>, empty when there is none.\<close>

definition containers_of :: "js \<Rightarrow> js list" where
  "containers_of body =
     (case lookup_path body [''request'', ''object'', ''spec'', ''containers''] of
        JArr cs \<Rightarrow> cs
      | _ \<Rightarrow> [])"

text \<open>
  A well-formed admission request, as far as the handler reads it:
  \<open>request.object.metadata.name\<close> is a string and \<open>request.object.spec.containers\<close> is a
  list of containers. Other fields (\<open>uid\<close>, \<open>operation\<close>, \<open>kind\<close>, ...) are free.
\<close>

definition well_formed :: "js \<Rightarrow> bool" where
  "well_formed body =
     (is_string (lookup_path body [''request'', ''object'', ''metadata'', ''name'']) \<and>
      (case lookup_path body [''request'', ''object'', ''spec'', ''containers''] of
         JArr cs \<Rightarrow> list_all wf_container cs
       | _ \<Rightarrow> False))"

text \<open>The container has the \<open>env\<close> field: the test of line 17 succeeds.\<close>

definition uses_env :: "js \<Rightarrow> bool" where
  "uses_env c = (in_op ''env'' c = Inr True)"

text \<open>The name of a container, as the messages render it.\<close>

definition container_name :: "js \<Rightarrow> string" where
  "container_name c =
     (case toString (lookup_path c [''name'']) of Inl e \<Rightarrow> [] | Inr n \<Rightarrow> n)"

text \<open>Property \<open>k\<close> of the \<open>response\<close> object of the document a reply carries.\<close>

definition response_field :: "http_reply \<Rightarrow> string \<Rightarrow> js option" where
  "response_field r k =
     (case lookup_path (sent r) [''response''] of
        JObj ps \<Rightarrow> map_of ps k
      | _ \<Rightarrow> None)"

section \<open>Properties\<close>

subsection \<open>Auxiliary facts\<close>

lemma assign_twice: "assign (assign ps k v) k w = assign ps k w"
  by (induction ps) auto

lemma map_of_assign: "map_of (assign ps k v) = (map_of ps)(k \<mapsto> v)"
  by (induction ps) (auto simp: fun_eq_iff)

lemma is_string_iff: "is_string v \<longleftrightarrow> (\<exists>s. v = JStr s)"
  by (cases v) auto

lemma getprop_string:
  assumes "lookup_path v (k # ks) = JStr s"
  obtains w where "getprop v k = Inr w" and "lookup_path w ks = JStr s"
  using assms by (cases "getprop v k") auto

lemma getprop_array:
  assumes "lookup_path v (k # ks) = JArr xs"
  obtains w where "getprop v k = Inr w" and "lookup_path w ks = JArr xs"
  using assms by (cases "getprop v k") auto

lemma wf_container_cases:
  assumes "wf_container c"
  obtains ps n where "c = JObj ps" and "map_of ps ''name'' = Some (JStr n)"
proof -
  from assms obtain n where n: "lookup_path c [''name''] = JStr n"
    by (auto simp: wf_container_def is_string_iff)
  then show ?thesis
    by (cases c) (auto split: option.splits intro: that)
qed

lemma wf_container_step:
  assumes "wf_container c"
  shows "containers_loop (c # cs) console ar found =
           (if uses_env c
            then containers_loop cs (console @ [container_name c @ '' is using env vars''])
                   (assign ar ''status'' (failure_status (container_name c))) True
            else containers_loop cs console ar found)"
  using assms
  by (elim wf_container_cases) (auto simp: uses_env_def container_name_def)

text \<open>The loop on well-formed containers, in closed form.\<close>

lemma containers_loop_wf:
  assumes "list_all wf_container cs"
  shows "containers_loop cs console ar found =
           (console @ map (\<lambda>c. container_name c @ '' is using env vars'') (filter uses_env cs),
            Inr (if filter uses_env cs = [] then ar
                 else assign ar ''status''
                        (failure_status (container_name (last (filter uses_env cs)))),
                 found \<or> filter uses_env cs \<noteq> []))"
  using assms
proof (induction cs arbitrary: console ar found)
  case Nil
  then show ?case by simp
next
  case (Cons c cs)
  then have c: "wf_container c" and cs: "list_all wf_container cs"
    by simp_all
  show ?case
    unfolding wf_container_step [OF c] Cons.IH [OF cs]
    by (simp add: assign_twice)
qed

text \<open>The reply to a well-formed request, in closed form.\<close>

lemma denyenv_wf:
  assumes "well_formed body"
  shows "snd (denyenv body console) =
           Inr \<lparr>headers = [(''Content-Type'', ''application/json'')],
                sent = JObj [(''response'',
                  JObj (if filter uses_env (containers_of body) = []
                        then [(''allowed'', JBool True)]
                        else [(''allowed'', JBool False),
                              (''status'', failure_status
                                 (container_name (last (filter uses_env (containers_of body)))))]))],
                statusCode = 200\<rparr>"
proof -
  from assms obtain n cs
    where n: "lookup_path body [''request'', ''object'', ''metadata'', ''name''] = JStr n"
      and cs: "lookup_path body [''request'', ''object'', ''spec'', ''containers''] = JArr cs"
      and wf: "list_all wf_container cs"
    by (auto simp: well_formed_def is_string_iff split: js.splits)
  from n obtain request where request: "getprop body ''request'' = Inr request"
    and n1: "lookup_path request [''object'', ''metadata'', ''name''] = JStr n"
    by (rule getprop_string)
  from n1 obtain object where object: "getprop request ''object'' = Inr object"
    and n2: "lookup_path object [''metadata'', ''name''] = JStr n"
    by (rule getprop_string)
  from n2 obtain metadata where metadata: "getprop object ''metadata'' = Inr metadata"
    and n3: "lookup_path metadata [''name''] = JStr n"
    by (rule getprop_string)
  from n3 have name: "getprop metadata ''name'' = Inr (JStr n)"
    by (elim getprop_string) simp
  from cs request object have "lookup_path object [''spec'', ''containers''] = JArr cs"
    by simp
  then obtain spec where spec: "getprop object ''spec'' = Inr spec"
    and c1: "lookup_path spec [''containers''] = JArr cs"
    by (rule getprop_array)
  from c1 have containers: "getprop spec ''containers'' = Inr (JArr cs)"
    by (elim getprop_array) simp
  have of_body: "containers_of body = cs"
    unfolding containers_of_def cs by simp
  show ?thesis
    unfolding denyenv_def of_body
    by (simp add: request object metadata name spec containers
        containers_loop_wf [OF wf] respond_def)
qed

lemma filter_env_empty: "filter uses_env cs = [] \<longleftrightarrow> list_all (\<lambda>c. \<not> uses_env c) cs"
  by (simp add: filter_empty_conv list_all_iff)

lemma last_offender:
  assumes "filter uses_env cs \<noteq> []"
  shows "last (filter uses_env cs) \<in> set cs" and "uses_env (last (filter uses_env cs))"
proof -
  from assms have "last (filter uses_env cs) \<in> set (filter uses_env cs)"
    by (rule last_in_set)
  then show "last (filter uses_env cs) \<in> set cs" and "uses_env (last (filter uses_env cs))"
    by simp_all
qed

text \<open>The console is only appended to, and nothing the handler computes depends on it.\<close>

lemma containers_loop_console:
  "containers_loop cs console ar found =
     (console @ fst (containers_loop cs [] ar found), snd (containers_loop cs [] ar found))"
proof (induction cs arbitrary: console ar found)
  case Nil
  then show ?case by simp
next
  case (Cons c cs)
  show ?case
  proof (cases "in_op ''env'' c")
    case (Inl e)
    then show ?thesis by simp
  next
    case (Inr b)
    show ?thesis
    proof (cases b)
      case False
      with Inr Cons.IH [of console ar found] show ?thesis by simp
    next
      case True
      show ?thesis
      proof (cases "getprop c ''name''")
        case (Inl e)
        with Inr True show ?thesis by simp
      next
        case nm: (Inr nm)
        show ?thesis
        proof (cases "toString nm")
          case (Inl e)
          with Inr True nm show ?thesis by simp
        next
          case n: (Inr n)
          let ?line = "n @ '' is using env vars''"
          let ?ar = "assign ar ''status'' (failure_status n)"
          from Cons.IH [of "console @ [?line]" ?ar True] Cons.IH [of "[?line]" ?ar True]
          show ?thesis
            using Inr True nm n by simp
        qed
      qed
    qed
  qed
qed

lemma denyenv_console:
  "denyenv body console = (console @ fst (denyenv body []), snd (denyenv body []))"
proof -
  have loop: "containers_loop cs (console @ l) ar found =
                (console @ fst (containers_loop cs l ar found),
                 snd (containers_loop cs l ar found))" for cs l ar found
    using containers_loop_console [of cs "console @ l" ar found]
      containers_loop_console [of cs l ar found]
    by simp
  show ?thesis
    unfolding denyenv_def
    by (simp add: loop Let_def split: sum.splits prod.splits)
qed

subsection \<open>The decision\<close>

text \<open>
  Claim C1. For every well-formed admission request the handler sends a reply, and the
  \<open>allowed\<close> flag of its response is true if and only if no container of
  \<open>object.spec.containers\<close> has the \<open>env\<close> field: it is the boolean "every container
  lacks \<open>env\<close>", so it is false exactly when some container carries the field.
\<close>

theorem allowed_iff_no_env:
  assumes "well_formed body"
  shows "\<exists>r. snd (denyenv body console) = Inr r \<and>
             response_field r ''allowed'' =
               Some (JBool (list_all (\<lambda>c. \<not> uses_env c) (containers_of body)))"
  using denyenv_wf [OF assms, of console]
  by (auto simp: response_field_def filter_env_empty)

theorem allowed_iff_no_env_witness:
  "well_formed
     (JObj [(''request'', JObj [(''uid'', JStr ''705ab4f5''), (''operation'', JStr ''CREATE''),
        (''object'', JObj [(''metadata'', JObj [(''name'', JStr ''web'')]),
           (''spec'', JObj [(''containers'',
              JArr [JObj [(''name'', JStr ''nginx'')],
                    JObj [(''name'', JStr ''sidecar''),
                          (''env'', JArr [JObj [(''name'', JStr ''PASSWORD''),
                                                 (''value'', JStr ''fail'')]])]])])])])]) \<and>
   (\<exists>r. snd (denyenv
       (JObj [(''request'', JObj [(''uid'', JStr ''705ab4f5''), (''operation'', JStr ''CREATE''),
          (''object'', JObj [(''metadata'', JObj [(''name'', JStr ''web'')]),
             (''spec'', JObj [(''containers'',
                JArr [JObj [(''name'', JStr ''nginx'')],
                      JObj [(''name'', JStr ''sidecar''),
                            (''env'', JArr [JObj [(''name'', JStr ''PASSWORD''),
                                                   (''value'', JStr ''fail'')]])]])])])])])
       []) = Inr r \<and> response_field r ''allowed'' = Some (JBool False))"
  using allowed_iff_no_env
    [of "JObj [(''request'', JObj [(''uid'', JStr ''705ab4f5''), (''operation'', JStr ''CREATE''),
          (''object'', JObj [(''metadata'', JObj [(''name'', JStr ''web'')]),
             (''spec'', JObj [(''containers'',
                JArr [JObj [(''name'', JStr ''nginx'')],
                      JObj [(''name'', JStr ''sidecar''),
                            (''env'', JArr [JObj [(''name'', JStr ''PASSWORD''),
                                                   (''value'', JStr ''fail'')]])]])])])])]"
        "[]"]
  by (simp add: well_formed_def wf_container_def containers_of_def uses_env_def)

text \<open>
  Claim C2. For every well-formed request in which at least one container has the \<open>env\<close>
  field, the response carries \<open>allowed = false\<close> and a status block whose \<open>status\<close> is
  \<open>Failure\<close>, whose \<open>code\<close> is 402, and whose \<open>message\<close> and \<open>reason\<close> are both
  \<open><name> is using env vars\<close> for a container \<open><name>\<close> of the request that has the
  \<open>env\<close> field.
\<close>

theorem denial_status_block:
  assumes "well_formed body"
    and "list_ex uses_env (containers_of body)"
  shows "\<exists>r c. snd (denyenv body console) = Inr r \<and>
           c \<in> set (containers_of body) \<and> uses_env c \<and>
           response_field r ''allowed'' = Some (JBool False) \<and>
           response_field r ''status'' =
             Some (JObj [(''status'', JStr ''Failure''),
                         (''message'', JStr (container_name c @ '' is using env vars'')),
                         (''reason'', JStr (container_name c @ '' is using env vars'')),
                         (''code'', JNum 402)])"
proof -
  let ?offenders = "filter uses_env (containers_of body)"
  from assms(2) have ne: "?offenders \<noteq> []"
    by (simp add: filter_empty_conv list_ex_iff)
  from denyenv_wf [OF assms(1), of console] ne
  have "\<exists>r. snd (denyenv body console) = Inr r \<and>
          response_field r ''allowed'' = Some (JBool False) \<and>
          response_field r ''status'' = Some (failure_status (container_name (last ?offenders)))"
    by (simp add: response_field_def)
  with last_offender [OF ne] show ?thesis
    unfolding failure_status_def by blast
qed

theorem denial_status_block_witness:
  "well_formed
     (JObj [(''request'', JObj [(''object'', JObj [(''metadata'', JObj [(''name'', JStr ''p'')]),
        (''spec'', JObj [(''containers'',
           JArr [JObj [(''name'', JStr ''nginx-with-env''),
                       (''env'', JArr [JObj [(''name'', JStr ''PASSWORD''),
                                              (''value'', JStr ''fail'')]])]])])])])]) \<and>
   (\<exists>r. snd (denyenv
       (JObj [(''request'', JObj [(''object'', JObj [(''metadata'', JObj [(''name'', JStr ''p'')]),
          (''spec'', JObj [(''containers'',
             JArr [JObj [(''name'', JStr ''nginx-with-env''),
                         (''env'', JArr [JObj [(''name'', JStr ''PASSWORD''),
                                                (''value'', JStr ''fail'')]])]])])])])])
       []) = Inr r \<and>
     response_field r ''allowed'' = Some (JBool False) \<and>
     response_field r ''status'' =
       Some (JObj [(''status'', JStr ''Failure''),
                   (''message'', JStr ''nginx-with-env is using env vars''),
                   (''reason'', JStr ''nginx-with-env is using env vars''),
                   (''code'', JNum 402)]))"
  using denial_status_block
    [of "JObj [(''request'', JObj [(''object'', JObj [(''metadata'', JObj [(''name'', JStr ''p'')]),
          (''spec'', JObj [(''containers'',
             JArr [JObj [(''name'', JStr ''nginx-with-env''),
                         (''env'', JArr [JObj [(''name'', JStr ''PASSWORD''),
                                                (''value'', JStr ''fail'')]])]])])])])]"
        "[]"]
  by (simp add: well_formed_def wf_container_def containers_of_def uses_env_def
      container_name_def)

text \<open>
  Claim C3, as amended. For every well-formed request in which two or more containers have
  the \<open>env\<close> field, the \<open>message\<close> and the \<open>reason\<close> of the denial are those of the last
  such container in the order of the containers list: each later match overwrites the
  status block of the earlier ones.
\<close>

theorem denial_reports_last_offender:
  assumes "well_formed body"
    and "2 \<le> length (filter uses_env (containers_of body))"
  shows "\<exists>r. snd (denyenv body console) = Inr r \<and>
           lookup_path (sent r) [''response'', ''status'', ''message''] =
             JStr (container_name (last (filter uses_env (containers_of body)))
                   @ '' is using env vars'') \<and>
           lookup_path (sent r) [''response'', ''status'', ''reason''] =
             JStr (container_name (last (filter uses_env (containers_of body)))
                   @ '' is using env vars'')"
proof -
  from assms(2) have "filter uses_env (containers_of body) \<noteq> []"
    by auto
  with denyenv_wf [OF assms(1), of console] show ?thesis
    by (simp add: failure_status_def)
qed

theorem denial_reports_last_offender_witness:
  "well_formed
     (JObj [(''request'', JObj [(''object'', JObj [(''metadata'', JObj [(''name'', JStr ''p'')]),
        (''spec'', JObj [(''containers'',
           JArr [JObj [(''name'', JStr ''a''), (''env'', JArr [])],
                 JObj [(''name'', JStr ''b''), (''env'', JArr [])],
                 JObj [(''name'', JStr ''c'')]])])])])]) \<and>
   (\<exists>r. snd (denyenv
       (JObj [(''request'', JObj [(''object'', JObj [(''metadata'', JObj [(''name'', JStr ''p'')]),
          (''spec'', JObj [(''containers'',
             JArr [JObj [(''name'', JStr ''a''), (''env'', JArr [])],
                   JObj [(''name'', JStr ''b''), (''env'', JArr [])],
                   JObj [(''name'', JStr ''c'')]])])])])])
       []) = Inr r \<and>
     lookup_path (sent r) [''response'', ''status'', ''message''] = JStr ''b is using env vars'' \<and>
     lookup_path (sent r) [''response'', ''status'', ''reason''] = JStr ''b is using env vars'')"
  using denial_reports_last_offender
    [of "JObj [(''request'', JObj [(''object'', JObj [(''metadata'', JObj [(''name'', JStr ''p'')]),
          (''spec'', JObj [(''containers'',
             JArr [JObj [(''name'', JStr ''a''), (''env'', JArr [])],
                   JObj [(''name'', JStr ''b''), (''env'', JArr [])],
                   JObj [(''name'', JStr ''c'')]])])])])]"
        "[]"]
  by (simp add: well_formed_def wf_container_def containers_of_def uses_env_def
      container_name_def)

text \<open>
  The claim as first stated (the first container with \<open>env\<close> is the one reported) fails:
  with containers \<open>a\<close> and \<open>b\<close>, both with \<open>env\<close>, the first such container is \<open>a\<close> and
  the denial reports \<open>b\<close>.
\<close>

theorem denial_reports_first_offender_counterexample:
  "well_formed
     (JObj [(''request'', JObj [(''object'', JObj [(''metadata'', JObj [(''name'', JStr ''p'')]),
        (''spec'', JObj [(''containers'',
           JArr [JObj [(''name'', JStr ''a''), (''env'', JArr [])],
                 JObj [(''name'', JStr ''b''), (''env'', JArr [])]])])])])]) \<and>
   container_name (hd (filter uses_env (containers_of
     (JObj [(''request'', JObj [(''object'', JObj [(''metadata'', JObj [(''name'', JStr ''p'')]),
        (''spec'', JObj [(''containers'',
           JArr [JObj [(''name'', JStr ''a''), (''env'', JArr [])],
                 JObj [(''name'', JStr ''b''), (''env'', JArr [])]])])])])])))) = ''a'' \<and>
   snd (denyenv
     (JObj [(''request'', JObj [(''object'', JObj [(''metadata'', JObj [(''name'', JStr ''p'')]),
        (''spec'', JObj [(''containers'',
           JArr [JObj [(''name'', JStr ''a''), (''env'', JArr [])],
                 JObj [(''name'', JStr ''b''), (''env'', JArr [])]])])])])])
     []) =
   Inr \<lparr>headers = [(''Content-Type'', ''application/json'')],
        sent = JObj [(''response'',
          JObj [(''allowed'', JBool False),
                (''status'', JObj [(''status'', JStr ''Failure''),
                                   (''message'', JStr ''b is using env vars''),
                                   (''reason'', JStr ''b is using env vars''),
                                   (''code'', JNum 402)])])],
        statusCode = 200\<rparr>"
  by (simp add: well_formed_def wf_container_def containers_of_def uses_env_def
      container_name_def denyenv_def respond_def failure_status_def)

text \<open>
  Claim C4. The test is for the presence of the \<open>env\<close> field, not for its value: a
  container whose \<open>env\<close> is bound to the empty list counts as using environment
  configuration, and a well-formed request whose only container is such a container
  (in particular \<open>{name: n, env: []}\<close>) is denied, with that container named.
\<close>

theorem empty_env_is_denied:
  assumes "well_formed body"
    and "containers_of body = [c]"
    and "getprop c ''env'' = Inr (JArr [])"
  shows "uses_env c \<and>
         (\<exists>r. snd (denyenv body console) = Inr r \<and>
            response_field r ''allowed'' = Some (JBool False) \<and>
            response_field r ''status'' = Some (failure_status (container_name c)))"
proof -
  from assms(3) have env: "uses_env c"
    by (cases c) (auto simp: uses_env_def split: option.splits)
  with assms(2) have "filter uses_env (containers_of body) = [c]"
    by simp
  with denyenv_wf [OF assms(1), of console] env show ?thesis
    by (simp add: response_field_def)
qed

theorem empty_env_is_denied_witness:
  "well_formed
     (JObj [(''request'', JObj [(''object'', JObj [(''metadata'', JObj [(''name'', JStr ''p'')]),
        (''spec'', JObj [(''containers'',
           JArr [JObj [(''name'', JStr ''n''), (''env'', JArr [])]])])])])]) \<and>
   getprop (JObj [(''name'', JStr ''n''), (''env'', JArr [])]) ''env'' = Inr (JArr []) \<and>
   uses_env (JObj [(''name'', JStr ''n''), (''env'', JArr [])]) \<and>
   (\<exists>r. snd (denyenv
       (JObj [(''request'', JObj [(''object'', JObj [(''metadata'', JObj [(''name'', JStr ''p'')]),
          (''spec'', JObj [(''containers'',
             JArr [JObj [(''name'', JStr ''n''), (''env'', JArr [])]])])])])])
       []) = Inr r \<and>
     response_field r ''allowed'' = Some (JBool False) \<and>
     response_field r ''status'' =
       Some (JObj [(''status'', JStr ''Failure''),
                   (''message'', JStr ''n is using env vars''),
                   (''reason'', JStr ''n is using env vars''),
                   (''code'', JNum 402)]))"
  using empty_env_is_denied
    [of "JObj [(''request'', JObj [(''object'', JObj [(''metadata'', JObj [(''name'', JStr ''p'')]),
          (''spec'', JObj [(''containers'',
             JArr [JObj [(''name'', JStr ''n''), (''env'', JArr [])]])])])])]"
        "JObj [(''name'', JStr ''n''), (''env'', JArr [])]" "[]"]
  by (simp add: well_formed_def wf_container_def containers_of_def container_name_def
      failure_status_def)

text \<open>
  Claim C5. For every well-formed request the reply's response has the status block if
  and only if \<open>allowed\<close> is false: \<open>allowed\<close> is a boolean, a response with
  \<open>allowed = true\<close> has no \<open>status\<close> property, and one with \<open>allowed = false\<close> has it.
\<close>

theorem status_iff_denied:
  assumes "well_formed body"
  shows "\<exists>r b. snd (denyenv body console) = Inr r \<and>
           response_field r ''allowed'' = Some (JBool b) \<and>
           (response_field r ''status'' \<noteq> None) = (\<not> b)"
  using denyenv_wf [OF assms, of console]
  by (auto simp: response_field_def)

theorem status_iff_denied_witness:
  "well_formed
     (JObj [(''request'', JObj [(''object'', JObj [(''metadata'', JObj [(''name'', JStr ''p'')]),
        (''spec'', JObj [(''containers'',
           JArr [JObj [(''name'', JStr ''nginx'')]])])])])]) \<and>
   (\<exists>r b. snd (denyenv
       (JObj [(''request'', JObj [(''object'', JObj [(''metadata'', JObj [(''name'', JStr ''p'')]),
          (''spec'', JObj [(''containers'',
             JArr [JObj [(''name'', JStr ''nginx'')]])])])])])
       [''earlier line'']) = Inr r \<and>
     response_field r ''allowed'' = Some (JBool b) \<and>
     (response_field r ''status'' \<noteq> None) = (\<not> b))"
  using status_iff_denied
    [of "JObj [(''request'', JObj [(''object'', JObj [(''metadata'', JObj [(''name'', JStr ''p'')]),
          (''spec'', JObj [(''containers'',
             JArr [JObj [(''name'', JStr ''nginx'')]])])])])]"
        "[''earlier line'']"]
  by (simp add: well_formed_def wf_container_def)

text \<open>
  Claim C10. For every well-formed request whose \<open>object.spec.containers\<close> is the empty
  list, the document sent is \<open>{response: {allowed: true}}\<close>: the workload is admitted
  and there is no status block.
\<close>

theorem no_containers_allowed:
  assumes "well_formed body"
    and "containers_of body = []"
  shows "\<exists>r. snd (denyenv body console) = Inr r \<and>
           sent r = JObj [(''response'', JObj [(''allowed'', JBool True)])] \<and>
           statusCode r = 200"
  using denyenv_wf [OF assms(1), of console] assms(2)
  by simp

theorem no_containers_allowed_witness:
  "well_formed
     (JObj [(''request'', JObj [(''object'', JObj [(''metadata'', JObj [(''name'', JStr ''p'')]),
        (''spec'', JObj [(''containers'', JArr [])])])])]) \<and>
   containers_of
     (JObj [(''request'', JObj [(''object'', JObj [(''metadata'', JObj [(''name'', JStr ''p'')]),
        (''spec'', JObj [(''containers'', JArr [])])])])]) = [] \<and>
   (\<exists>r. snd (denyenv
       (JObj [(''request'', JObj [(''object'', JObj [(''metadata'', JObj [(''name'', JStr ''p'')]),
          (''spec'', JObj [(''containers'', JArr [])])])])])
       []) = Inr r \<and>
     sent r = JObj [(''response'', JObj [(''allowed'', JBool True)])] \<and>
     statusCode r = 200)"
  using no_containers_allowed
    [of "JObj [(''request'', JObj [(''object'', JObj [(''metadata'', JObj [(''name'', JStr ''p'')]),
          (''spec'', JObj [(''containers'', JArr [])])])])]"
        "[]"]
  by (simp add: well_formed_def containers_of_def)

subsection \<open>The envelope\<close>

text \<open>
  Claim C6, as amended. For every well-formed request the document sent has the single
  property \<open>response\<close>, whose own properties are \<open>allowed\<close> and, on a denial, \<open>status\<close>:
  the handler does not read \<open>request.uid\<close> and the response does not carry it.
\<close>

theorem uid_not_in_response:
  assumes "well_formed body"
  shows "\<exists>r ps. snd (denyenv body console) = Inr r \<and>
           sent r = JObj [(''response'', JObj ps)] \<and>
           (map fst ps = [''allowed''] \<or> map fst ps = [''allowed'', ''status'']) \<and>
           response_field r ''uid'' = None"
  using denyenv_wf [OF assms, of console]
  by (auto simp: response_field_def)

theorem uid_not_in_response_witness:
  "well_formed
     (JObj [(''request'', JObj [(''uid'', JStr ''705ab4f5''),
        (''object'', JObj [(''metadata'', JObj [(''name'', JStr ''p'')]),
           (''spec'', JObj [(''containers'',
              JArr [JObj [(''name'', JStr ''nginx''), (''env'', JArr [])]])])])])]) \<and>
   (\<exists>r ps. snd (denyenv
       (JObj [(''request'', JObj [(''uid'', JStr ''705ab4f5''),
          (''object'', JObj [(''metadata'', JObj [(''name'', JStr ''p'')]),
             (''spec'', JObj [(''containers'',
                JArr [JObj [(''name'', JStr ''nginx''), (''env'', JArr [])]])])])])])
       []) = Inr r \<and>
     sent r = JObj [(''response'', JObj ps)] \<and>
     (map fst ps = [''allowed''] \<or> map fst ps = [''allowed'', ''status'']) \<and>
     response_field r ''uid'' = None)"
  using uid_not_in_response
    [of "JObj [(''request'', JObj [(''uid'', JStr ''705ab4f5''),
          (''object'', JObj [(''metadata'', JObj [(''name'', JStr ''p'')]),
             (''spec'', JObj [(''containers'',
                JArr [JObj [(''name'', JStr ''nginx''), (''env'', JArr [])]])])])])]"
        "[]"]
  by (simp add: well_formed_def wf_container_def)

text \<open>
  The claim as first stated (the response echoes \<open>request.uid\<close>) fails: a request with
  uid \<open>705ab4f5\<close> is answered by \<open>{response: {allowed: true}}\<close>, in which the uid does
  not occur.
\<close>

theorem uid_echo_counterexample:
  "lookup_path
     (JObj [(''request'', JObj [(''uid'', JStr ''705ab4f5''),
        (''object'', JObj [(''metadata'', JObj [(''name'', JStr ''p'')]),
           (''spec'', JObj [(''containers'', JArr [JObj [(''name'', JStr ''nginx'')]])])])])])
     [''request'', ''uid''] = JStr ''705ab4f5'' \<and>
   snd (denyenv
     (JObj [(''request'', JObj [(''uid'', JStr ''705ab4f5''),
        (''object'', JObj [(''metadata'', JObj [(''name'', JStr ''p'')]),
           (''spec'', JObj [(''containers'', JArr [JObj [(''name'', JStr ''nginx'')]])])])])])
     []) =
   Inr \<lparr>headers = [(''Content-Type'', ''application/json'')],
        sent = JObj [(''response'', JObj [(''allowed'', JBool True)])],
        statusCode = 200\<rparr>"
  by (simp add: denyenv_def respond_def)

subsection \<open>Failures\<close>

text \<open>
  Claim C7. For every input in which \<open>request\<close> or \<open>request.object\<close> is missing, the
  handler fails before it writes anything: the exception (the handler's only one, a
  \<open>TypeError\<close>) escapes to the host, the console is untouched, and no reply is sent, so
  none that claims \<open>allowed = true\<close>.
\<close>

theorem missing_object_raises:
  assumes "lookup_path body [''request'', ''object''] = JUndefined"
  shows "denyenv body console = (console, Inl TypeError) \<and>
         (\<forall>r. snd (denyenv body console) \<noteq> Inr r)"
proof -
  have err: "e = TypeError" for e
    by (cases e)
  have "denyenv body console = (console, Inl TypeError)"
  proof (cases "getprop body ''request''")
    case (Inl e)
    with err [of e] show ?thesis by (simp add: denyenv_def)
  next
    case request: (Inr request)
    show ?thesis
    proof (cases "getprop request ''object''")
      case (Inl e)
      with request err [of e] show ?thesis by (simp add: denyenv_def)
    next
      case (Inr object)
      with request assms have "object = JUndefined" by simp
      with request Inr show ?thesis by (simp add: denyenv_def)
    qed
  qed
  then show ?thesis by simp
qed

theorem missing_object_raises_witness:
  "lookup_path
     (JObj [(''request'', JObj [(''uid'', JStr ''705ab4f5''), (''operation'', JStr ''CREATE'')])])
     [''request'', ''object''] = JUndefined \<and>
   denyenv
     (JObj [(''request'', JObj [(''uid'', JStr ''705ab4f5''), (''operation'', JStr ''CREATE'')])])
     [''earlier line''] = ([''earlier line''], Inl TypeError) \<and>
   lookup_path (JObj [(''kind'', JStr ''AdmissionReview'')]) [''request'', ''object''] = JUndefined \<and>
   denyenv (JObj [(''kind'', JStr ''AdmissionReview'')]) [] = ([], Inl TypeError)"
  using missing_object_raises
    [of "JObj [(''request'', JObj [(''uid'', JStr ''705ab4f5''), (''operation'', JStr ''CREATE'')])]"
        "[''earlier line'']"]
    missing_object_raises [of "JObj [(''kind'', JStr ''AdmissionReview'')]" "[]"]
  by simp

text \<open>
  Claim C8, as amended. The handler never reads the kind or the version the object
  declares, has no failure for an unsupported kind and takes no configuration: its result
  depends on the object only through \<open>metadata\<close> and \<open>spec\<close>. Two requests whose objects
  agree on these two properties get the same result whatever else (kind, apiVersion, ...)
  the objects and the requests declare, so an object of an unrecognised kind is decided
  by the \<open>env\<close> rule like any other.
\<close>

theorem kind_is_not_consulted:
  assumes "getprop body ''request'' = Inr request"
    and "getprop request ''object'' = Inr object"
    and "getprop body' ''request'' = Inr request'"
    and "getprop request' ''object'' = Inr object'"
    and "getprop object' ''metadata'' = getprop object ''metadata''"
    and "getprop object' ''spec'' = getprop object ''spec''"
  shows "denyenv body' console = denyenv body console"
  unfolding denyenv_def by (simp add: assms Let_def split: sum.splits)

theorem kind_is_not_consulted_witness:
  "denyenv
     (JObj [(''request'', JObj [(''object'',
        JObj [(''apiVersion'', JStr ''example.com/v9''), (''kind'', JStr ''Widget''),
              (''metadata'', JObj [(''name'', JStr ''w'')]),
              (''spec'', JObj [(''containers'',
                 JArr [JObj [(''name'', JStr ''a''), (''env'', JArr [])]])])])])])
     [] =
   denyenv
     (JObj [(''request'', JObj [(''object'',
        JObj [(''apiVersion'', JStr ''v1''), (''kind'', JStr ''Pod''),
              (''metadata'', JObj [(''name'', JStr ''w'')]),
              (''spec'', JObj [(''containers'',
                 JArr [JObj [(''name'', JStr ''a''), (''env'', JArr [])]])])])])])
     []"
  using kind_is_not_consulted
    [of "JObj [(''request'', JObj [(''object'',
           JObj [(''apiVersion'', JStr ''v1''), (''kind'', JStr ''Pod''),
                 (''metadata'', JObj [(''name'', JStr ''w'')]),
                 (''spec'', JObj [(''containers'',
                    JArr [JObj [(''name'', JStr ''a''), (''env'', JArr [])]])])])])]"
        "JObj [(''object'',
           JObj [(''apiVersion'', JStr ''v1''), (''kind'', JStr ''Pod''),
                 (''metadata'', JObj [(''name'', JStr ''w'')]),
                 (''spec'', JObj [(''containers'',
                    JArr [JObj [(''name'', JStr ''a''), (''env'', JArr [])]])])])]"
        "JObj [(''apiVersion'', JStr ''v1''), (''kind'', JStr ''Pod''),
               (''metadata'', JObj [(''name'', JStr ''w'')]),
               (''spec'', JObj [(''containers'',
                  JArr [JObj [(''name'', JStr ''a''), (''env'', JArr [])]])])]"
        "JObj [(''request'', JObj [(''object'',
           JObj [(''apiVersion'', JStr ''example.com/v9''), (''kind'', JStr ''Widget''),
                 (''metadata'', JObj [(''name'', JStr ''w'')]),
                 (''spec'', JObj [(''containers'',
                    JArr [JObj [(''name'', JStr ''a''), (''env'', JArr [])]])])])])]"
        "JObj [(''object'',
           JObj [(''apiVersion'', JStr ''example.com/v9''), (''kind'', JStr ''Widget''),
                 (''metadata'', JObj [(''name'', JStr ''w'')]),
                 (''spec'', JObj [(''containers'',
                    JArr [JObj [(''name'', JStr ''a''), (''env'', JArr [])]])])])]"
        "JObj [(''apiVersion'', JStr ''example.com/v9''), (''kind'', JStr ''Widget''),
               (''metadata'', JObj [(''name'', JStr ''w'')]),
               (''spec'', JObj [(''containers'',
                  JArr [JObj [(''name'', JStr ''a''), (''env'', JArr [])]])])]"
        "[]"]
  by simp

text \<open>
  The claim as first stated (an unrecognised kind makes the handler fail and a configured
  policy then decides) fails: a request for an object of kind \<open>Widget\<close>, version
  \<open>example.com/v9\<close>, does not fail. It is answered like a pod: allowed when its
  container has no \<open>env\<close>, and denied for the \<open>env\<close> of its container otherwise.
\<close>

theorem unsupported_kind_counterexample:
  "snd (denyenv
     (JObj [(''request'', JObj [(''object'',
        JObj [(''apiVersion'', JStr ''example.com/v9''), (''kind'', JStr ''Widget''),
              (''metadata'', JObj [(''name'', JStr ''w'')]),
              (''spec'', JObj [(''containers'', JArr [JObj [(''name'', JStr ''a'')]])])])])])
     []) =
   Inr \<lparr>headers = [(''Content-Type'', ''application/json'')],
        sent = JObj [(''response'', JObj [(''allowed'', JBool True)])],
        statusCode = 200\<rparr> \<and>
   snd (denyenv
     (JObj [(''request'', JObj [(''object'',
        JObj [(''apiVersion'', JStr ''example.com/v9''), (''kind'', JStr ''Widget''),
              (''metadata'', JObj [(''name'', JStr ''w'')]),
              (''spec'', JObj [(''containers'',
                 JArr [JObj [(''name'', JStr ''a''), (''env'', JArr [])]])])])])])
     []) =
   Inr \<lparr>headers = [(''Content-Type'', ''application/json'')],
        sent = JObj [(''response'',
          JObj [(''allowed'', JBool False),
                (''status'', JObj [(''status'', JStr ''Failure''),
                                   (''message'', JStr ''a is using env vars''),
                                   (''reason'', JStr ''a is using env vars''),
                                   (''code'', JNum 402)])])],
        statusCode = 200\<rparr>"
  by (simp add: denyenv_def respond_def failure_status_def)

subsection \<open>Determinism\<close>

text \<open>
  Claim C9. The decision is a function of the request alone. The only state that outlives
  a call is the console, which the handler appends to and never reads: whatever the
  console holds, the same request gets the same outcome (the same reply, with the same
  \<open>allowed\<close> flag and status block, or the same exception), and evaluating a request
  again after it has been evaluated once gives the outcome of the first evaluation.
\<close>

theorem denyenv_deterministic:
  "snd (denyenv body console') = snd (denyenv body console) \<and>
   snd (denyenv body (fst (denyenv body console))) = snd (denyenv body console) \<and>
   fst (denyenv body console) = console @ fst (denyenv body [])"
proof -
  have outcome: "snd (denyenv body c) = snd (denyenv body [])" for c
    by (subst denyenv_console) simp
  have "snd (denyenv body console') = snd (denyenv body console)"
    by (simp only: outcome [of console] outcome [of console'])
  moreover have "snd (denyenv body (fst (denyenv body console))) = snd (denyenv body console)"
    by (simp only: outcome [of console] outcome [of "fst (denyenv body console)"])
  moreover have "fst (denyenv body console) = console @ fst (denyenv body [])"
    by (subst denyenv_console) simp
  ultimately show ?thesis by blast
qed

end
